theory Spec2Isabelle
  imports Main
begin

section \<open>The broadcast hub of messenger.go\<close>

subsection \<open>Data\<close>

text \<open>
  A connection is the pointer \<^verbatim>\<open>*websocket.Conn\<close>; only its identity matters, so it is a
  number. \<^verbatim>\<open>Message\<close> is the struct of the source with its two string fields.
\<close>

type_synonym conn = nat

record Message =
  Username :: string
  Message :: string

text \<open>
  One call of \<^verbatim>\<open>client.WriteJSON(msg)\<close>: the connection written to, the value written and
  whether the call returned without error.
\<close>

record write_call =
  target :: conn
  payload :: Message
  ok :: bool

text \<open>
  The process state the hub works on. \<open>clients\<close> and \<open>broadcast\<close> are the two globals of
  the source; the channel is the sequence of messages handed over and not yet received.
  The other fields record what the code does to the outside: \<open>closed\<close> holds the
  connections on which \<^verbatim>\<open>Close()\<close> was called, \<open>active\<close> the connections whose
  \<^verbatim>\<open>handleConnections\<close> call is inside its read loop, \<open>wire\<close> the calls of
  \<^verbatim>\<open>WriteJSON\<close> in the order they were made, and \<open>exited\<close> is set once
  \<^verbatim>\<open>log.Fatal\<close> has ended the process.
\<close>

record hub =
  clients :: "conn \<rightharpoonup> bool"
  broadcast :: "Message list"
  closed :: "conn set"
  active :: "conn set"
  wire :: "write_call list"
  exited :: bool

text \<open>
  The outcome of a \<^verbatim>\<open>WriteJSON\<close> call is decided by the transport: given the calls made
  so far, the connection and the message, it says whether the call returns an error.
\<close>

type_synonym transport = "write_call list \<Rightarrow> conn \<Rightarrow> Message \<Rightarrow> bool"

subsection \<open>Registry operations\<close>

text \<open>Go's builtin \<^verbatim>\<open>delete(m, k)\<close>: it returns nothing and cannot fail.\<close>

definition delete :: "('k \<rightharpoonup> 'v) \<Rightarrow> 'k \<Rightarrow> ('k \<rightharpoonup> 'v)" where
  "delete m k = m(k := None)"

text \<open>
  The write-failure branch of \<^verbatim>\<open>handleMessages\<close> (lines 58 to 62):
  \<^verbatim>\<open>client.Close(); delete(clients, client)\<close>.
\<close>

definition drop_client :: "conn \<Rightarrow> hub \<Rightarrow> hub" where
  "drop_client client s =
     s\<lparr>closed := insert client (closed s), clients := delete (clients s) client\<rparr>"

text \<open>
  The read-failure branch of \<^verbatim>\<open>handleConnections\<close> (lines 40 to 44):
  \<^verbatim>\<open>delete(clients, ws); break\<close>. Leaving the loop ends the function, which runs the
  deferred \<^verbatim>\<open>ws.Close()\<close> of line 31.
\<close>

definition read_failed :: "conn \<Rightarrow> hub \<Rightarrow> hub" where
  "read_failed ws s =
     s\<lparr>clients := delete (clients s) ws, active := active s - {ws},
       closed := insert ws (closed s)\<rparr>"

subsection \<open>handleMessages\<close>

text \<open>
  \<^verbatim>\<open>for client := range clients\<close> visits the keys of the map in an order the runtime
  chooses: each key that is in the map when the loop starts comes once. \<open>range_ok\<close> says
  that \<open>ks\<close> is such an order for the registry of \<open>s\<close>.
\<close>

definition range_ok :: "conn list \<Rightarrow> hub \<Rightarrow> bool" where
  "range_ok ks s \<longleftrightarrow> distinct ks \<and> set ks = dom (clients s)"

text \<open>
  The body of the range loop (lines 56 to 63) over the keys in the order \<open>ks\<close>. A key
  that was deleted before the loop reaches it is not produced, as Go specifies; the loop
  body deletes only the key it is at.
\<close>

fun fanout :: "transport \<Rightarrow> Message \<Rightarrow> conn list \<Rightarrow> hub \<Rightarrow> hub" where
  "fanout tr msg [] s = s"
| "fanout tr msg (client # ks) s =
     (if clients s client = None then fanout tr msg ks s
      else
        let err = tr (wire s) client msg;
            s1 = s\<lparr>wire := wire s @ [\<lparr>target = client, payload = msg, ok = \<not> err\<rparr>]\<rparr>
        in fanout tr msg ks (if err then drop_client client s1 else s1))"

text \<open>
  The outer loop (lines 52 to 64): each iteration receives the next message from the
  channel and fans it out. The loop has no exit; the model runs one iteration for each
  element of \<open>kss\<close>, the key orders of the successive range loops, and stops where the
  source would block on an empty channel.
\<close>

fun handleMessages :: "transport \<Rightarrow> conn list list \<Rightarrow> hub \<Rightarrow> hub" where
  "handleMessages tr [] s = s"
| "handleMessages tr (ks # kss) s =
     (case broadcast s of
        [] \<Rightarrow> s
      | msg # q \<Rightarrow> handleMessages tr kss (fanout tr msg ks (s\<lparr>broadcast := q\<rparr>)))"

text \<open>
  The \<^verbatim>\<open>WriteJSON\<close> calls made between two states of the process, those made by one
  fan-out, and the connections on which a call of a list returned an error.
\<close>

definition calls_since :: "hub \<Rightarrow> hub \<Rightarrow> write_call list" where
  "calls_since s s' = drop (length (wire s)) (wire s')"

definition pass_calls :: "transport \<Rightarrow> Message \<Rightarrow> conn list \<Rightarrow> hub \<Rightarrow> write_call list" where
  "pass_calls tr msg ks s = calls_since s (fanout tr msg ks s)"

definition failed_in :: "write_call list \<Rightarrow> conn set" where
  "failed_in W = {target w | w. w \<in> set W \<and> \<not> ok w}"

subsection \<open>handleConnections and messenger\<close>

text \<open>
  Lines 27 to 34. The handshake either fails with an error, and \<^verbatim>\<open>log.Fatal\<close> ends the
  process, or yields a connection, which is put into the registry.
\<close>

definition upgrade :: "string + conn \<Rightarrow> hub \<Rightarrow> hub" where
  "upgrade up s =
     (case up of
        Inl err \<Rightarrow> s\<lparr>exited := True\<rparr>
      | Inr ws \<Rightarrow> s\<lparr>clients := (clients s)(ws \<mapsto> True), active := insert ws (active s)\<rparr>)"

text \<open>One iteration of the read loop (lines 37 to 46), given what \<^verbatim>\<open>ReadJSON\<close> returned.\<close>

definition read_once :: "conn \<Rightarrow> string + Message \<Rightarrow> hub \<Rightarrow> hub" where
  "read_once ws r s =
     (case r of
        Inl err \<Rightarrow> read_failed ws s
      | Inr msg \<Rightarrow> s\<lparr>broadcast := broadcast s @ [msg]\<rparr>)"

fun read_loop :: "conn \<Rightarrow> (string + Message) list \<Rightarrow> hub \<Rightarrow> hub" where
  "read_loop ws [] s = s"
| "read_loop ws (Inl err # rs) s = read_once ws (Inl err) s"
| "read_loop ws (Inr msg # rs) s = read_loop ws rs (read_once ws (Inr msg) s)"

definition handleConnections :: "string + conn \<Rightarrow> (string + Message) list \<Rightarrow> hub \<Rightarrow> hub" where
  "handleConnections up rs s =
     (case up of
        Inl err \<Rightarrow> upgrade up s
      | Inr ws \<Rightarrow> read_loop ws rs (upgrade up s))"

text \<open>
  \<^verbatim>\<open>messenger\<close> (lines 67 to 78): \<^verbatim>\<open>ListenAndServe\<close> returns only with an error, and
  then \<^verbatim>\<open>log.Fatal\<close> ends the process; \<open>None\<close> stands for a server that keeps serving.
\<close>

definition messenger :: "string option \<Rightarrow> hub \<Rightarrow> hub" where
  "messenger listen_err s =
     (case listen_err of None \<Rightarrow> s | Some err \<Rightarrow> s\<lparr>exited := True\<rparr>)"

subsection \<open>The running process\<close>

text \<open>
  The process as a sequence of events: a request to \<^verbatim>\<open>/ws\<close> with the outcome of its
  handshake, a \<^verbatim>\<open>ReadJSON\<close> of a running handler returning, and one iteration of the
  hub's loop. Nothing happens after \<^verbatim>\<open>log.Fatal\<close>.
\<close>

datatype event =
    Connect "string + conn"
  | Read conn "string + Message"
  | Dispatch "conn list"

fun step :: "transport \<Rightarrow> hub \<Rightarrow> event \<Rightarrow> hub" where
  "step tr s (Connect up) = (if exited s then s else upgrade up s)"
| "step tr s (Read ws r) =
     (if exited s \<or> ws \<notin> active s then s else read_once ws r s)"
| "step tr s (Dispatch ks) = (if exited s then s else handleMessages tr [ks] s)"




text \<open>The process at start: the empty map and the empty channel of lines 10 and 11.\<close>

definition hub0 :: hub where
  "hub0 = \<lparr>clients = Map.empty, broadcast = [], closed = {}, active = {}, wire = [],
     exited = False\<rparr>"


text \<open>The state after the loop body has written to one registered connection.\<close>

definition after_write :: "transport \<Rightarrow> Message \<Rightarrow> conn \<Rightarrow> hub \<Rightarrow> hub" where
  "after_write tr msg c s =
     (let err = tr (wire s) c msg;
          s1 = s\<lparr>wire := wire s @ [\<lparr>target = c, payload = msg, ok = \<not> err\<rparr>]\<rparr>
      in if err then drop_client c s1 else s1)"

subsection \<open>A concrete process\<close>

text \<open>
  Three registered connections, one message in the channel, and a transport on which
  every write to connection 2 fails.
\<close>

definition msgA :: Message where
  "msgA = \<lparr>Username = ''a'', Message = ''hi''\<rparr>"

definition hubABC :: hub where
  "hubABC = \<lparr>clients = Map.empty(1 \<mapsto> True, 2 \<mapsto> True, 3 \<mapsto> True), broadcast = [msgA],
      closed = {}, active = {1, 2, 3}, wire = [], exited = False\<rparr>"

definition fail2 :: transport where
  "fail2 h c m = (c = 2)"

definition msgB :: Message where
  "msgB = \<lparr>Username = ''c'', Message = ''yo''\<rparr>"

text \<open>The same process with two messages in the channel.\<close>

definition hubQ :: hub where
  "hubQ = hubABC\<lparr>broadcast := [msgA, msgB]\<rparr>"


section \<open>The game handlers of main.go\<close>

subsection \<open>Data\<close>

text \<open>
  The struct \<^verbatim>\<open>Game\<close>. A \<^verbatim>\<open>time.Time\<close> is an instant counted from the zero time, so \<open>0\<close>
  is Go's zero \<^verbatim>\<open>time.Time\<close>; a nil slice and an empty one are both \<open>[]\<close>.
\<close>

record Game =
  ID :: string
  Player1 :: string
  Player2 :: string
  Moves :: "string list"
  CreatedAt :: nat
  LastUpdated :: nat

text \<open>The value of \<^verbatim>\<open>var game Game\<close>.\<close>

definition zero_Game :: Game where
  "zero_Game = \<lparr>ID = [], Player1 = [], Player2 = [], Moves = [], CreatedAt = 0,
     LastUpdated = 0\<rparr>"

text \<open>
  What the handlers write to the \<^verbatim>\<open>http.ResponseWriter\<close>: the status code and the body.
  \<^verbatim>\<open>http.Error\<close> writes the code and the text followed by a newline; \<^verbatim>\<open>Encode\<close> on a writer
  whose header was not written sends 200 with the JSON of the value; \<^verbatim>\<open>WriteHeader\<close>
  alone sends the code with no body.
\<close>

datatype body = NoBody | Text string | Json Game

record response =
  status :: nat
  content :: body

definition http_Error :: "string \<Rightarrow> nat \<Rightarrow> response" where
  "http_Error msg code = \<lparr>status = code, content = Text (msg @ [CHR 0x0A])\<rparr>"

definition Encode :: "Game \<Rightarrow> response" where
  "Encode game = \<lparr>status = 200, content = Json game\<rparr>"

definition WriteHeader :: "nat \<Rightarrow> response" where
  "WriteHeader code = \<lparr>status = code, content = NoBody\<rparr>"

text \<open>
  A request body, by what \<^verbatim>\<open>json.NewDecoder(r.Body).Decode(&game)\<close> does with it:
  \<open>NotJSON\<close> is a body that is empty or not valid JSON, on which \<^verbatim>\<open>Decode\<close> returns an
  error before it touches the struct; \<open>Mistyped g\<close> is valid JSON with a value of the
  wrong type for a field, on which \<^verbatim>\<open>Decode\<close> returns an error after it has filled the
  struct to \<open>g\<close>; \<open>Object g\<close> is a body that decodes to \<open>g\<close> without error. The handlers
  drop the error, so only the struct after the call matters.
\<close>

datatype body_json = NotJSON | Mistyped Game | Object Game

fun Decode :: "body_json \<Rightarrow> Game \<Rightarrow> Game" where
  "Decode NotJSON game = game"
| "Decode (Mistyped g) game = g"
| "Decode (Object g) game = g"

subsection \<open>The collection\<close>

text \<open>
  The value of \<^verbatim>\<open>_id\<close> in a stored document: an ObjectID (its twelve bytes, written as 24
  lower-case hex digits) or a string. Values of the two kinds are never equal.
\<close>

datatype bson_id = ObjectID string | StringID string

text \<open>
  \<^verbatim>\<open>primitive.ObjectIDFromHex\<close>: the text must have 24 characters, all of them hex digits;
  upper and lower case digits give the same bytes.
\<close>

definition is_hex :: "char \<Rightarrow> bool" where
  "is_hex c \<longleftrightarrow> c \<in> set ''0123456789abcdefABCDEF''"

definition lower_hex :: "char \<Rightarrow> char" where
  "lower_hex c = (case map_of (zip ''ABCDEF'' ''abcdef'') c of Some d \<Rightarrow> d | None \<Rightarrow> c)"

definition ObjectIDFromHex :: "string \<Rightarrow> bson_id option" where
  "ObjectIDFromHex s =
     (if length s \<noteq> 24 then None
      else if list_all is_hex s then Some (ObjectID (map lower_hex s))
      else None)"

text \<open>
  The collection \<^verbatim>\<open>chess.games\<close> behind \<^verbatim>\<open>getCollection()\<close>: its documents by \<^verbatim>\<open>_id\<close>, and
  whether the server can be reached (\<open>Some e\<close>: every operation returns the error \<open>e\<close>).
\<close>

record store =
  docs :: "bson_id \<rightharpoonup> Game"
  fault :: "string option"

text \<open>
  The four driver calls the handlers make. A stored document is written as the
  \<^verbatim>\<open>Game\<close> it was marshalled from; its \<^verbatim>\<open>_id\<close> is the key. The tag \<^verbatim>\<open>bson:"_id,omitempty"\<close>
  leaves \<^verbatim>\<open>_id\<close> out when \<^verbatim>\<open>ID\<close> is empty, and then \<^verbatim>\<open>InsertOne\<close> uses the fresh ObjectID
  \<open>oid\<close> that the driver generates. \<^verbatim>\<open>FindOne(...).Decode\<close> returns \<^verbatim>\<open>ErrNoDocuments\<close> when no
  document matches the filter, and puts the \<^verbatim>\<open>_id\<close> of a found document into \<^verbatim>\<open>ID\<close>.
  \<^verbatim>\<open>ReplaceOne\<close> and \<^verbatim>\<open>DeleteOne\<close> return no error when no document matches: they report
  the number of matched or deleted documents in their result.
\<close>

definition id_text :: "bson_id \<Rightarrow> string" where
  "id_text k = (case k of ObjectID h \<Rightarrow> h | StringID t \<Rightarrow> t)"

definition InsertOne :: "store \<Rightarrow> string \<Rightarrow> Game \<Rightarrow> string + store" where
  "InsertOne st oid game =
     (case fault st of
        Some e \<Rightarrow> Inl e
      | None \<Rightarrow>
          let k = (if ID game = [] then ObjectID oid else StringID (ID game))
          in if docs st k \<noteq> None then Inl ''E11000 duplicate key error''
             else Inr (st\<lparr>docs := (docs st)(k \<mapsto> game)\<rparr>))"

definition FindOne :: "store \<Rightarrow> bson_id \<Rightarrow> string + Game" where
  "FindOne st k =
     (case fault st of
        Some e \<Rightarrow> Inl e
      | None \<Rightarrow>
          (case docs st k of
             None \<Rightarrow> Inl ''mongo: no documents in result''
           | Some g \<Rightarrow> Inr (g\<lparr>ID := id_text k\<rparr>)))"

definition ReplaceOne :: "store \<Rightarrow> bson_id \<Rightarrow> Game \<Rightarrow> string + nat \<times> store" where
  "ReplaceOne st k game =
     (case fault st of
        Some e \<Rightarrow> Inl e
      | None \<Rightarrow>
          (case docs st k of
             None \<Rightarrow> Inr (0, st)
           | Some g \<Rightarrow>
               if ID game \<noteq> [] \<and> StringID (ID game) \<noteq> k
               then Inl ''the (immutable) field _id was found to have been altered''
               else Inr (1, st\<lparr>docs := (docs st)(k \<mapsto> game)\<rparr>)))"

definition DeleteOne :: "store \<Rightarrow> bson_id \<Rightarrow> string + nat \<times> store" where
  "DeleteOne st k =
     (case fault st of
        Some e \<Rightarrow> Inl e
      | None \<Rightarrow>
          (case docs st k of
             None \<Rightarrow> Inr (0, st)
           | Some g \<Rightarrow> Inr (1, st\<lparr>docs := (docs st)(k := None)\<rparr>)))"

subsection \<open>The handlers\<close>

text \<open>
  Each handler takes the collection and what the request brings (the \<^verbatim>\<open>{id}\<close> of the
  path, the body), and returns the response and the collection afterwards. \<open>now\<close> is the
  value of \<^verbatim>\<open>time.Now()\<close>.

  \<^verbatim>\<open>createGame\<close>, \<^verbatim>\<open>updateGame\<close> and \<^verbatim>\<open>deleteGame\<close> are the same in src/main.go and in
  src/unnamed/part_000.
\<close>

definition createGame :: "store \<Rightarrow> nat \<Rightarrow> string \<Rightarrow> body_json \<Rightarrow> response \<times> store" where
  "createGame st now oid rbody =
     (let game = Decode rbody zero_Game;
          game = game\<lparr>CreatedAt := now\<rparr>;
          game = game\<lparr>LastUpdated := CreatedAt game\<rparr>
      in case InsertOne st oid game of
           Inl err \<Rightarrow> (http_Error err 500, st)
         | Inr st' \<Rightarrow> (WriteHeader 201, st'))"

text \<open>
  \<^verbatim>\<open>getGame\<close> of src/main.go (lines 136 to 159). The error of \<^verbatim>\<open>Decode\<close> is only logged
  (lines 153 to 155); the handler goes on and encodes \<^verbatim>\<open>game\<close>, which is still the zero
  value when nothing was found.
\<close>

definition getGame :: "store \<Rightarrow> string \<Rightarrow> response" where
  "getGame st hexId =
     (case ObjectIDFromHex hexId of
        None \<Rightarrow> http_Error ''Game not found'' 404
      | Some id' \<Rightarrow>
          (case FindOne st id' of
             Inl gameDoc \<Rightarrow> Encode zero_Game
           | Inr game \<Rightarrow> Encode game))"

text \<open>
  \<^verbatim>\<open>getGame\<close> of src/unnamed/part_000 (lines 95 to 105): the filter holds the path
  variable as a string, and an error of \<^verbatim>\<open>Decode\<close> gives 404.
\<close>

definition getGame_part_000 :: "store \<Rightarrow> string \<Rightarrow> response" where
  "getGame_part_000 st id' =
     (case FindOne st (StringID id') of
        Inl err \<Rightarrow> http_Error ''Game not found'' 404
      | Inr game \<Rightarrow> Encode game)"

definition updateGame :: "store \<Rightarrow> nat \<Rightarrow> string \<Rightarrow> body_json \<Rightarrow> response \<times> store" where
  "updateGame st now id' rbody =
     (let game = Decode rbody zero_Game;
          game = game\<lparr>LastUpdated := now\<rparr>
      in case ReplaceOne st (StringID id') game of
           Inl err \<Rightarrow> (http_Error err 500, st)
         | Inr (n, st') \<Rightarrow> (WriteHeader 200, st'))"

definition deleteGame :: "store \<Rightarrow> string \<Rightarrow> response \<times> store" where
  "deleteGame st id' =
     (case DeleteOne st (StringID id') of
        Inl err \<Rightarrow> (http_Error err 500, st)
      | Inr (n, st') \<Rightarrow> (WriteHeader 200, st'))"

subsection \<open>Concrete collections\<close>

definition store0 :: store where
  "store0 = \<lparr>docs = Map.empty, fault = None\<rparr>"

definition gameA :: Game where
  "gameA = \<lparr>ID = ''g1'', Player1 = ''ann'', Player2 = ''bob'', Moves = [''e4''],
     CreatedAt = 5, LastUpdated = 5\<rparr>"

text \<open>A collection with one game whose \<^verbatim>\<open>_id\<close> is the string \<^verbatim>\<open>g1\<close>.\<close>

definition store1 :: store where
  "store1 = \<lparr>docs = Map.empty(StringID ''g1'' \<mapsto> gameA), fault = None\<rparr>"

text \<open>
  A game sent without an id, and the collection after \<^verbatim>\<open>createGame\<close> has stored it: the
  driver gives the document an ObjectID.
\<close>

definition gameB :: Game where
  "gameB = \<lparr>ID = [], Player1 = ''ann'', Player2 = ''bob'', Moves = [], CreatedAt = 0,
     LastUpdated = 0\<rparr>"

definition store2 :: store where
  "store2 = snd (createGame store0 7 ''507f1f77bcf86cd799439011'' (Object gameB))"

section \<open>Facts about the fan-out\<close>

lemma fanout_Cons:
  "fanout tr msg (c # ks) s =
     (if clients s c = None then fanout tr msg ks s
      else fanout tr msg ks (after_write tr msg c s))"
  by (simp add: after_write_def Let_def)

lemma wire_after_write:
  "wire (after_write tr msg c s) =
     wire s @ [\<lparr>target = c, payload = msg, ok = \<not> tr (wire s) c msg\<rparr>]"
  by (simp add: after_write_def Let_def drop_client_def)

lemma clients_after_write:
  "clients (after_write tr msg c s) =
     (if tr (wire s) c msg then (clients s)(c := None) else clients s)"
  by (simp add: after_write_def Let_def drop_client_def delete_def)

lemma closed_after_write:
  "closed (after_write tr msg c s) =
     (if tr (wire s) c msg then insert c (closed s) else closed s)"
  by (simp add: after_write_def Let_def drop_client_def)

lemma rest_after_write:
  "broadcast (after_write tr msg c s) = broadcast s"
  "active (after_write tr msg c s) = active s"
  "exited (after_write tr msg c s) = exited s"
  by (simp_all add: after_write_def Let_def drop_client_def)

lemma fanout_wire_ex: "\<exists>W. wire (fanout tr msg ks s) = wire s @ W"
proof (induction ks arbitrary: s)
  case Nil
  show ?case by simp
next
  case (Cons c ks)
  show ?case
  proof (cases "clients s c = None")
    case True
    then show ?thesis using Cons.IH [of s] by simp
  next
    case False
    obtain W where "wire (fanout tr msg ks (after_write tr msg c s))
        = wire (after_write tr msg c s) @ W"
      using Cons.IH [of "after_write tr msg c s"] by blast
    then show ?thesis using False
      by (simp only: fanout_Cons if_False wire_after_write) simp
  qed
qed

lemma fanout_wire: "wire (fanout tr msg ks s) = wire s @ pass_calls tr msg ks s"
  using fanout_wire_ex [of tr msg ks s] by (auto simp: pass_calls_def calls_since_def)

lemma pass_calls_Nil: "pass_calls tr msg [] s = []"
  by (simp add: pass_calls_def calls_since_def)

lemma pass_calls_Cons:
  "pass_calls tr msg (c # ks) s =
     (if clients s c = None then pass_calls tr msg ks s
      else \<lparr>target = c, payload = msg, ok = \<not> tr (wire s) c msg\<rparr>
             # pass_calls tr msg ks (after_write tr msg c s))"
proof (cases "clients s c = None")
  case True
  then show ?thesis by (simp add: pass_calls_def)
next
  case False
  let ?s' = "after_write tr msg c s"
  have f: "fanout tr msg (c # ks) s = fanout tr msg ks ?s'"
    using False by (simp only: fanout_Cons if_False)
  have "wire (fanout tr msg ks ?s') = wire ?s' @ pass_calls tr msg ks ?s'"
    by (rule fanout_wire)
  then have "drop (length (wire s)) (wire (fanout tr msg ks ?s'))
      = \<lparr>target = c, payload = msg, ok = \<not> tr (wire s) c msg\<rparr> # pass_calls tr msg ks ?s'"
    by (simp add: wire_after_write)
  moreover obtain y where "clients s c = Some y" using False by auto
  ultimately show ?thesis
    unfolding pass_calls_def [of tr msg "c # ks" s] calls_since_def f by simp
qed

lemma failed_in_simps:
  "failed_in [] = {}"
  "failed_in (w # W) = (if ok w then failed_in W else insert (target w) (failed_in W))"
  by (auto simp: failed_in_def)

lemma pass_targets:
  "distinct ks \<Longrightarrow> set ks \<subseteq> dom (clients s) \<Longrightarrow> map target (pass_calls tr msg ks s) = ks"
proof (induction ks arbitrary: s)
  case Nil
  show ?case by (simp add: pass_calls_Nil)
next
  case (Cons c ks)
  have "set ks \<subseteq> dom (clients (after_write tr msg c s))"
    using Cons.prems by (auto simp: clients_after_write)
  then show ?case using Cons by (auto simp: pass_calls_Cons)
qed

lemma pass_payload: "w \<in> set (pass_calls tr msg ks s) \<Longrightarrow> payload w = msg"
  by (induction ks arbitrary: s) (auto simp: pass_calls_Nil pass_calls_Cons split: if_splits)

lemma fanout_rest:
  "broadcast (fanout tr msg ks s) = broadcast s
   \<and> active (fanout tr msg ks s) = active s
   \<and> exited (fanout tr msg ks s) = exited s"
  by (induction ks arbitrary: s) (auto simp: fanout_Cons rest_after_write simp del: fanout.simps(2))

lemma fanout_closed:
  "closed (fanout tr msg ks s) = closed s \<union> failed_in (pass_calls tr msg ks s)"
  by (induction ks arbitrary: s)
     (auto simp: fanout_Cons pass_calls_Nil pass_calls_Cons failed_in_simps closed_after_write
           simp del: fanout.simps(2))

lemma fanout_clients:
  "clients (fanout tr msg ks s) c =
     (if c \<in> failed_in (pass_calls tr msg ks s) then None else clients s c)"
  by (induction ks arbitrary: s)
     (auto simp: fanout_Cons pass_calls_Nil pass_calls_Cons failed_in_simps clients_after_write
           simp del: fanout.simps(2))

lemma count_distinct:
  "distinct ks \<Longrightarrow> length (filter (\<lambda>k. k = c) ks) = (if c \<in> set ks then 1 else 0)"
  by (induction ks) auto

lemma count_targets:
  "length (filter (\<lambda>w. target w = c) W) = length (filter (\<lambda>k. k = c) (map target W))"
  by (induction W) auto

lemma delivered_none:
  "length (filter (\<lambda>w. target w = c) W) = 0 \<Longrightarrow>
     length (filter (\<lambda>w. target w = c \<and> ok w) W) = 0"
  by (auto simp: filter_empty_conv)

lemma delivered_one:
  assumes "length (filter (\<lambda>w. target w = c) W) = 1"
  shows "length (filter (\<lambda>w. target w = c \<and> ok w) W) = (if c \<in> failed_in W then 0 else 1)"
proof -
  obtain w where w: "filter (\<lambda>w. target w = c) W = [w]"
    using assms by (auto simp: length_Suc_conv)
  have "w \<in> set (filter (\<lambda>w. target w = c) W)" by (simp add: w)
  then have t: "target w = c" by simp
  have f: "filter (\<lambda>w. target w = c \<and> ok w) W = filter ok (filter (\<lambda>w. target w = c) W)"
    by (simp add: conj_commute)
  have "c \<in> failed_in W \<longleftrightarrow> (\<exists>w' \<in> set (filter (\<lambda>w. target w = c) W). \<not> ok w')"
    by (auto simp: failed_in_def)
  then have "c \<in> failed_in W \<longleftrightarrow> \<not> ok w" by (simp add: w)
  then show ?thesis by (simp add: f w)
qed

lemma pass_count:
  assumes "range_ok ks s"
  shows "length (filter (\<lambda>w. target w = c) (pass_calls tr msg ks s))
           = (if clients s c = None then 0 else 1)"
proof -
  have d: "distinct ks" and e: "set ks = dom (clients s)"
    using assms by (simp_all add: range_ok_def)
  have "map target (pass_calls tr msg ks s) = ks"
    using d e by (simp add: pass_targets)
  then have "length (filter (\<lambda>w. target w = c) (pass_calls tr msg ks s))
      = (if c \<in> set ks then 1 else 0)"
    using d by (simp add: count_targets count_distinct)
  then show ?thesis using e by (auto simp: dom_def)
qed

text \<open>One iteration of the hub's loop on a channel that holds a message.\<close>

lemma handleMessages_one:
  "broadcast s = msg # q \<Longrightarrow>
     handleMessages tr [ks] s = fanout tr msg ks (s\<lparr>broadcast := q\<rparr>)"
  by simp

lemma calls_one:
  "broadcast s = msg # q \<Longrightarrow>
     calls_since s (handleMessages tr [ks] s) = pass_calls tr msg ks (s\<lparr>broadcast := q\<rparr>)"
  by (simp add: pass_calls_def calls_since_def)

lemma handleMessages_wire_ex: "\<exists>W. wire (handleMessages tr kss s) = wire s @ W"
proof (induction kss arbitrary: s)
  case Nil show ?case by simp
next
  case (Cons ks kss)
  show ?case
  proof (cases "broadcast s")
    case Nil then show ?thesis by simp
  next
    case (Cons msg q)
    let ?s1 = "fanout tr msg ks (s\<lparr>broadcast := q\<rparr>)"
    obtain W where "wire (handleMessages tr kss ?s1) = wire ?s1 @ W"
      using Cons.IH [of ?s1] by blast
    moreover have "wire ?s1 = wire s @ pass_calls tr msg ks (s\<lparr>broadcast := q\<rparr>)"
      using fanout_wire [of tr msg ks "s\<lparr>broadcast := q\<rparr>"] by simp
    ultimately show ?thesis using Cons by simp
  qed
qed

lemma handleMessages_wire:
  "wire (handleMessages tr kss s) = wire s @ calls_since s (handleMessages tr kss s)"
  using handleMessages_wire_ex [of tr kss s] by (auto simp: calls_since_def)

lemma map_pair:
  "map target W = ks \<Longrightarrow> \<forall>w \<in> set W. payload w = m \<Longrightarrow>
     map (\<lambda>w. (target w, payload w)) W = map (\<lambda>c. (c, m)) ks"
  by (induction W arbitrary: ks) auto

section \<open>Facts about the running process\<close>











lemma range_hubABC: "range_ok [2, 3, 1] hubABC"
  by (auto simp: range_ok_def hubABC_def)

lemma wire_hubABC:
  "handleMessages fail2 [[2, 3, 1]] hubABC =
     \<lparr>clients = Map.empty(1 \<mapsto> True, 3 \<mapsto> True), broadcast = [],
      closed = {2}, active = {1, 2, 3},
      wire = [\<lparr>target = 2, payload = msgA, ok = False\<rparr>,
              \<lparr>target = 3, payload = msgA, ok = True\<rparr>,
              \<lparr>target = 1, payload = msgA, ok = True\<rparr>], exited = False\<rparr>"
  by (auto simp: hubABC_def fail2_def drop_client_def delete_def)

lemma calls_hubABC:
  "calls_since hubABC (handleMessages fail2 [[2, 3, 1]] hubABC)
     = [\<lparr>target = 2, payload = msgA, ok = False\<rparr>,
        \<lparr>target = 3, payload = msgA, ok = True\<rparr>,
        \<lparr>target = 1, payload = msgA, ok = True\<rparr>]"
  unfolding wire_hubABC calls_since_def by (simp add: hubABC_def)

lemma hubQ_pass1:
  "handleMessages fail2 [[2, 3, 1]] hubQ =
     \<lparr>clients = Map.empty(1 \<mapsto> True, 3 \<mapsto> True), broadcast = [msgB],
      closed = {2}, active = {1, 2, 3},
      wire = [\<lparr>target = 2, payload = msgA, ok = False\<rparr>,
              \<lparr>target = 3, payload = msgA, ok = True\<rparr>,
              \<lparr>target = 1, payload = msgA, ok = True\<rparr>], exited = False\<rparr>"
  by (auto simp: hubQ_def hubABC_def fail2_def drop_client_def delete_def)

lemma range_hubQ: "range_ok [2, 3, 1] hubQ"
  by (auto simp: range_ok_def hubQ_def hubABC_def)

lemma range_hubQ_pass1: "range_ok [1, 3] (handleMessages fail2 [[2, 3, 1]] hubQ)"
  unfolding hubQ_pass1 by (auto simp: range_ok_def)


section \<open>Facts about the game handlers\<close>

lemma hex_sample:
  "ObjectIDFromHex ''507f1f77bcf86cd799439011'' = Some (ObjectID ''507f1f77bcf86cd799439011'')"
  by (simp add: ObjectIDFromHex_def is_hex_def lower_hex_def)

lemma getGame_not_found:
  "ObjectIDFromHex hexId = Some k \<Longrightarrow> fault st = None \<Longrightarrow> docs st k = None \<Longrightarrow>
     getGame st hexId = Encode zero_Game"
  by (simp add: getGame_def FindOne_def)

lemma getGame_found:
  "ObjectIDFromHex hexId = Some k \<Longrightarrow> fault st = None \<Longrightarrow> docs st k = Some g \<Longrightarrow>
     getGame st hexId = Encode (g\<lparr>ID := id_text k\<rparr>)"
  by (simp add: getGame_def FindOne_def)

lemma getGame_part_000_cases:
  "fault st = None \<Longrightarrow>
     getGame_part_000 st i =
       (case docs st (StringID i) of
          None \<Rightarrow> http_Error ''Game not found'' 404
        | Some g \<Rightarrow> Encode (g\<lparr>ID := i\<rparr>))"
  by (simp add: getGame_part_000_def FindOne_def id_text_def split: option.splits)

lemma store2_eq:
  "store2 = \<lparr>docs = Map.empty(ObjectID ''507f1f77bcf86cd799439011'' \<mapsto>
       gameB\<lparr>CreatedAt := 7, LastUpdated := 7\<rparr>), fault = None\<rparr>"
  by (simp add: store2_def createGame_def InsertOne_def store0_def gameB_def Let_def)

lemma getGame_store2:
  "getGame store2 ''507f1f77bcf86cd799439011'' =
     Encode (gameB\<lparr>ID := ''507f1f77bcf86cd799439011'', CreatedAt := 7, LastUpdated := 7\<rparr>)"
  unfolding store2_eq
  by (simp add: getGame_def FindOne_def id_text_def ObjectIDFromHex_def is_hex_def lower_hex_def
        gameB_def)

section \<open>Properties\<close>

text \<open>
  C7. Removing a connection that is absent from the registry changes nothing and cannot
  fail (the operation is a total function with no error result), and removing twice is
  the same as removing once. Both removal sites of the source are covered: after the
  write-failure branch has removed a connection, the read-failure branch of the same
  connection leaves the registry as it is, and the other way round.
\<close>

theorem remove_idempotent:
  "(m c = None \<longrightarrow> delete m c = m)
   \<and> delete (delete m c) c = delete m c
   \<and> clients (read_failed c (drop_client c s)) = clients (drop_client c s)
   \<and> clients (drop_client c (read_failed c s)) = clients (read_failed c s)"
  by (auto simp: delete_def drop_client_def read_failed_def)

theorem remove_idempotent_witness:
  "(Map.empty(1 \<mapsto> True)) (2::nat) = None
   \<and> delete (Map.empty(1 \<mapsto> True)) (2::nat) = Map.empty(1 \<mapsto> True)"
  using remove_idempotent [of "Map.empty(1 \<mapsto> True)" "2::nat"] by simp

text \<open>
  C1, as the code has it. One iteration of the hub's loop over a channel that holds
  message \<open>msg\<close> calls \<^verbatim>\<open>WriteJSON(msg)\<close> exactly once on every connection that is in the
  registry when the message is received, and on no other connection; every call of that
  iteration carries \<open>msg\<close>. A connection of the registry whose call succeeds receives
  \<open>msg\<close> exactly once; one whose call fails receives it zero times, and is closed and
  removed. No connection receives \<open>msg\<close> more than once. The connection that put the
  message into the channel is treated like any other: if it is registered it gets its
  one call.
\<close>

theorem dispatch_exactly_once:
  assumes "range_ok ks s" and "broadcast s = msg # q"
  shows "wire (handleMessages tr [ks] s) = wire s @ calls_since s (handleMessages tr [ks] s)
    \<and> (\<forall>c. length (filter (\<lambda>w. target w = c) (calls_since s (handleMessages tr [ks] s)))
            = (if clients s c = None then 0 else 1))
    \<and> (\<forall>c. length (filter (\<lambda>w. target w = c \<and> ok w)
               (calls_since s (handleMessages tr [ks] s)))
            = (if clients s c = None
                  \<or> c \<in> failed_in (calls_since s (handleMessages tr [ks] s))
               then 0 else 1))
    \<and> (\<forall>c. c \<in> failed_in (calls_since s (handleMessages tr [ks] s)) \<longrightarrow>
            clients s c \<noteq> None \<and> clients (handleMessages tr [ks] s) c = None
            \<and> c \<in> closed (handleMessages tr [ks] s))
    \<and> (\<forall>w \<in> set (calls_since s (handleMessages tr [ks] s)). payload w = msg)
    \<and> (\<forall>ws s0. s = read_once ws (Inr msg) s0 \<and> clients s0 ws \<noteq> None \<longrightarrow>
          length (filter (\<lambda>w. target w = ws \<and> payload w = msg)
            (calls_since s (handleMessages tr [ks] s))) = 1)"
proof -
  let ?s = "s\<lparr>broadcast := q\<rparr>"
  let ?W = "pass_calls tr msg ks ?s"
  have r: "range_ok ks ?s" using assms(1) by (simp add: range_ok_def)
  have W: "calls_since s (handleMessages tr [ks] s) = ?W"
    using assms(2) by (rule calls_one)
  have H: "handleMessages tr [ks] s = fanout tr msg ks ?s"
    using assms(2) by (rule handleMessages_one)
  have a: "wire (handleMessages tr [ks] s) = wire s @ ?W"
    using fanout_wire [of tr msg ks ?s] assms(2) by simp
  have b: "length (filter (\<lambda>w. target w = c) ?W) = (if clients s c = None then 0 else 1)" for c
    using pass_count [OF r, of c tr msg] by simp
  have e: "length (filter (\<lambda>w. target w = c \<and> ok w) ?W)
      = (if clients s c = None \<or> c \<in> failed_in ?W then 0 else 1)" for c
  proof (cases "clients s c = None")
    case True
    then have "length (filter (\<lambda>w. target w = c) ?W) = 0" using b [of c] by simp
    then show ?thesis using True delivered_none by simp
  next
    case False
    then have "length (filter (\<lambda>w. target w = c) ?W) = 1" using b [of c] by simp
    then show ?thesis using False delivered_one by simp
  qed
  have g: "clients s c \<noteq> None \<and> clients (handleMessages tr [ks] s) c = None
            \<and> c \<in> closed (handleMessages tr [ks] s)" if "c \<in> failed_in ?W" for c
  proof -
    have "\<exists>w \<in> set ?W. target w = c" using that by (auto simp: failed_in_def)
    then have "filter (\<lambda>w. target w = c) ?W \<noteq> []" by (auto simp: filter_empty_conv)
    then have "clients s c \<noteq> None" using b [of c] by (auto split: if_splits)
    then show ?thesis using that unfolding H by (simp add: fanout_clients fanout_closed)
  qed
  have c: "\<forall>w \<in> set ?W. payload w = msg"
    by (auto dest: pass_payload)
  have same: "filter (\<lambda>w. target w = ws \<and> payload w = msg) ?W = filter (\<lambda>w. target w = ws) ?W" for ws
    using c by (auto intro: filter_cong)
  have d: "length (filter (\<lambda>w. target w = ws \<and> payload w = msg) ?W) = 1"
    if "s = read_once ws (Inr msg) s0" "clients s0 ws \<noteq> None" for ws s0
  proof -
    have "clients s ws \<noteq> None" using that by (simp add: read_once_def)
    then show ?thesis using b [of ws] by (simp add: same)
  qed
  show ?thesis unfolding W using a b c d e g by blast
qed

theorem dispatch_exactly_once_witness:
  "range_ok [2, 3, 1] hubABC \<and> broadcast hubABC = msgA # []
   \<and> wire (handleMessages fail2 [[2, 3, 1]] hubABC)
       = [\<lparr>target = 2, payload = msgA, ok = False\<rparr>,
          \<lparr>target = 3, payload = msgA, ok = True\<rparr>,
          \<lparr>target = 1, payload = msgA, ok = True\<rparr>]
   \<and> (\<forall>c. length (filter (\<lambda>w. target w = c)
              (calls_since hubABC (handleMessages fail2 [[2, 3, 1]] hubABC)))
            = (if clients hubABC c = None then 0 else 1))
   \<and> (\<forall>c. length (filter (\<lambda>w. target w = c \<and> ok w)
               (calls_since hubABC (handleMessages fail2 [[2, 3, 1]] hubABC)))
            = (if clients hubABC c = None
                  \<or> c \<in> failed_in (calls_since hubABC (handleMessages fail2 [[2, 3, 1]] hubABC))
               then 0 else 1))
   \<and> failed_in (calls_since hubABC (handleMessages fail2 [[2, 3, 1]] hubABC)) = {2}"
proof -
  have h1: "range_ok [2, 3, 1] hubABC" by (rule range_hubABC)
  have h2: "broadcast hubABC = msgA # []" by (simp add: hubABC_def)
  have h3: "wire (handleMessages fail2 [[2, 3, 1]] hubABC)
       = [\<lparr>target = 2, payload = msgA, ok = False\<rparr>,
          \<lparr>target = 3, payload = msgA, ok = True\<rparr>,
          \<lparr>target = 1, payload = msgA, ok = True\<rparr>]"
    unfolding wire_hubABC by simp
  have h4: "failed_in (calls_since hubABC (handleMessages fail2 [[2, 3, 1]] hubABC)) = {2}"
    unfolding calls_hubABC by (simp add: failed_in_simps)
  show ?thesis using dispatch_exactly_once [OF h1 h2, of fail2] h1 h2 h3 h4 by blast
qed

text \<open>
  C1 as the spec states it fails: connection 2 is in the registry when the message is
  dispatched, the one write to it fails, and it is not written to again, so it receives
  the message zero times.
\<close>

theorem dispatch_counterexample:
  "range_ok [2, 3, 1] hubABC \<and> broadcast hubABC = [msgA]
   \<and> clients hubABC 2 = Some True
   \<and> calls_since hubABC (handleMessages fail2 [[2, 3, 1]] hubABC)
       = [\<lparr>target = 2, payload = msgA, ok = False\<rparr>,
          \<lparr>target = 3, payload = msgA, ok = True\<rparr>,
          \<lparr>target = 1, payload = msgA, ok = True\<rparr>]"
  unfolding calls_hubABC using range_hubABC by (simp add: hubABC_def)

text \<open>
  C2. If the write of \<open>msg\<close> to connection \<open>a\<close> fails during a fan-out, then \<open>a\<close> is
  closed and removed from the registry, every other connection of the registry still
  gets exactly one write of \<open>msg\<close>, every connection whose write did not fail stays as
  it was (registered, and closed only if it was closed before), nothing but \<open>msg\<close> is
  written to any connection, nothing is put into the channel, and the process runs on.
\<close>

theorem failure_isolated:
  assumes "range_ok ks s" and "broadcast s = msg # q"
    and "\<lparr>target = a, payload = msg, ok = False\<rparr>
           \<in> set (calls_since s (handleMessages tr [ks] s))"
  shows "clients (handleMessages tr [ks] s) a = None
    \<and> a \<in> closed (handleMessages tr [ks] s)
    \<and> (\<forall>c. clients s c \<noteq> None \<and> c \<noteq> a \<longrightarrow>
          length (filter (\<lambda>w. target w = c \<and> payload w = msg)
            (calls_since s (handleMessages tr [ks] s))) = 1)
    \<and> (\<forall>c. clients s c \<noteq> None
            \<and> c \<notin> failed_in (calls_since s (handleMessages tr [ks] s)) \<longrightarrow>
          clients (handleMessages tr [ks] s) c = clients s c
          \<and> (c \<in> closed (handleMessages tr [ks] s)) = (c \<in> closed s))
    \<and> (\<forall>w \<in> set (calls_since s (handleMessages tr [ks] s)). payload w = msg)
    \<and> broadcast (handleMessages tr [ks] s) = q
    \<and> exited (handleMessages tr [ks] s) = exited s"
proof -
  let ?s = "s\<lparr>broadcast := q\<rparr>"
  let ?W = "pass_calls tr msg ks ?s"
  have r: "range_ok ks ?s" using assms(1) by (simp add: range_ok_def)
  have W: "calls_since s (handleMessages tr [ks] s) = ?W"
    using assms(2) by (rule calls_one)
  have H: "handleMessages tr [ks] s = fanout tr msg ks ?s"
    using assms(2) by (rule handleMessages_one)
  have af: "a \<in> failed_in ?W"
    using assms(3) unfolding W failed_in_def by force
  have p: "\<forall>w \<in> set ?W. payload w = msg"
    by (auto dest: pass_payload)
  have same: "filter (\<lambda>w. target w = c \<and> payload w = msg) ?W = filter (\<lambda>w. target w = c) ?W" for c
    using p by (auto intro: filter_cong)
  have cnt: "length (filter (\<lambda>w. target w = c \<and> payload w = msg) ?W) = 1"
    if "clients s c \<noteq> None" for c
    using pass_count [OF r, of c tr msg] that by (simp add: same)
  have 1: "clients (fanout tr msg ks ?s) a = None"
    using af by (simp add: fanout_clients)
  have 2: "a \<in> closed (fanout tr msg ks ?s)"
    using af by (simp add: fanout_closed)
  have 3: "clients (fanout tr msg ks ?s) c = clients s c
        \<and> (c \<in> closed (fanout tr msg ks ?s)) = (c \<in> closed s)"
    if "c \<notin> failed_in ?W" for c
    using that by (simp add: fanout_clients fanout_closed)
  have 4: "broadcast (fanout tr msg ks ?s) = q" "exited (fanout tr msg ks ?s) = exited s"
    by (simp_all add: fanout_rest)
  have W': "calls_since s (fanout tr msg ks ?s) = ?W"
    using W by (simp only: H)
  show ?thesis unfolding H W' using 1 2 3 4 cnt p by blast
qed

theorem failure_isolated_witness:
  "range_ok [2, 3, 1] hubABC \<and> broadcast hubABC = msgA # []
   \<and> \<lparr>target = 2, payload = msgA, ok = False\<rparr>
        \<in> set (calls_since hubABC (handleMessages fail2 [[2, 3, 1]] hubABC))
   \<and> clients (handleMessages fail2 [[2, 3, 1]] hubABC) 2 = None
   \<and> 2 \<in> closed (handleMessages fail2 [[2, 3, 1]] hubABC)
   \<and> clients hubABC 1 \<noteq> None \<and> clients hubABC 3 \<noteq> None
   \<and> length (filter (\<lambda>w. target w = 1 \<and> payload w = msgA)
         (calls_since hubABC (handleMessages fail2 [[2, 3, 1]] hubABC))) = 1
   \<and> length (filter (\<lambda>w. target w = 3 \<and> payload w = msgA)
         (calls_since hubABC (handleMessages fail2 [[2, 3, 1]] hubABC))) = 1"
proof -
  have h1: "range_ok [2, 3, 1] hubABC" by (rule range_hubABC)
  have h2: "broadcast hubABC = msgA # []" by (simp add: hubABC_def)
  have h3: "\<lparr>target = 2, payload = msgA, ok = False\<rparr>
        \<in> set (calls_since hubABC (handleMessages fail2 [[2, 3, 1]] hubABC))"
    unfolding wire_hubABC calls_since_def by (simp add: hubABC_def)
  have h4: "clients hubABC 1 \<noteq> None \<and> 1 \<noteq> (2::nat)"
    and h5: "clients hubABC 3 \<noteq> None \<and> 3 \<noteq> (2::nat)"
    by (simp_all add: hubABC_def)
  show ?thesis using failure_isolated [OF h1 h2 h3] h1 h2 h3 h4 h5 by blast
qed

text \<open>
  C5. When the channel holds \<open>m1\<close> and then \<open>m2\<close>, the writes of the hub's loop are, in
  this order: the writes of \<open>m1\<close>, one to each connection of the registry as it is when
  \<open>m1\<close> is received; then the writes of \<open>m2\<close>, one to each connection of the registry
  as it is when \<open>m2\<close> is received; then whatever later iterations write. No write of
  \<open>m2\<close> comes before the last write of \<open>m1\<close>.
\<close>

theorem passes_in_order:
  assumes "broadcast s = m1 # m2 # q"
    and "range_ok ks1 s"
    and "range_ok ks2 (handleMessages tr [ks1] s)"
  shows "wire (handleMessages tr (ks1 # ks2 # kss) s)
      = wire s
        @ calls_since s (handleMessages tr [ks1] s)
        @ calls_since (handleMessages tr [ks1] s) (handleMessages tr [ks1, ks2] s)
        @ calls_since (handleMessages tr [ks1, ks2] s) (handleMessages tr (ks1 # ks2 # kss) s)
    \<and> map (\<lambda>w. (target w, payload w)) (calls_since s (handleMessages tr [ks1] s))
        = map (\<lambda>c. (c, m1)) ks1
    \<and> map (\<lambda>w. (target w, payload w))
          (calls_since (handleMessages tr [ks1] s) (handleMessages tr [ks1, ks2] s))
        = map (\<lambda>c. (c, m2)) ks2"
proof -
  let ?s1 = "handleMessages tr [ks1] s"
  let ?s2 = "handleMessages tr [ks1, ks2] s"
  let ?s3 = "handleMessages tr (ks1 # ks2 # kss) s"
  have b1: "broadcast ?s1 = m2 # q"
    using assms(1) by (simp add: fanout_rest)
  have s2: "?s2 = handleMessages tr [ks2] ?s1"
    using assms(1) by simp
  have s3: "?s3 = handleMessages tr kss ?s2"
    using assms(1) by (simp add: fanout_rest)
  have w1: "wire ?s1 = wire s @ calls_since s ?s1" by (rule handleMessages_wire)
  have w2: "wire ?s2 = wire ?s1 @ calls_since ?s1 ?s2"
    unfolding s2 by (rule handleMessages_wire)
  have w3: "wire ?s3 = wire ?s2 @ calls_since ?s2 ?s3"
    unfolding s3 by (rule handleMessages_wire)
  have a: "wire ?s3 = wire s @ calls_since s ?s1 @ calls_since ?s1 ?s2 @ calls_since ?s2 ?s3"
    using w1 w2 w3 by simp
  have shape: "map (\<lambda>w. (target w, payload w)) (calls_since t (handleMessages tr [ks] t))
        = map (\<lambda>c. (c, m)) ks"
    if "range_ok ks t" "broadcast t = m # r" for t ks m r
  proof -
    let ?W = "pass_calls tr m ks (t\<lparr>broadcast := r\<rparr>)"
    have W: "calls_since t (handleMessages tr [ks] t) = ?W" using that(2) by (rule calls_one)
    have "map target ?W = ks"
      using that(1) by (simp add: pass_targets range_ok_def)
    moreover have "\<forall>w \<in> set ?W. payload w = m" by (auto dest: pass_payload)
    ultimately have "map (\<lambda>w. (target w, payload w)) ?W = map (\<lambda>c. (c, m)) ks"
      by (rule map_pair)
    then show ?thesis by (simp only: W)
  qed
  have b: "map (\<lambda>w. (target w, payload w)) (calls_since s ?s1) = map (\<lambda>c. (c, m1)) ks1"
    using shape [OF assms(2) assms(1)] .
  have c: "map (\<lambda>w. (target w, payload w)) (calls_since ?s1 ?s2) = map (\<lambda>c. (c, m2)) ks2"
    using shape [OF assms(3) b1] by (simp only: s2)
  show ?thesis using a b c by blast
qed

theorem passes_in_order_witness:
  "broadcast hubQ = msgA # msgB # []
   \<and> range_ok [2, 3, 1] hubQ
   \<and> range_ok [1, 3] (handleMessages fail2 [[2, 3, 1]] hubQ)
   \<and> map (\<lambda>w. (target w, payload w)) (calls_since hubQ (handleMessages fail2 [[2, 3, 1]] hubQ))
        = map (\<lambda>c. (c, msgA)) [2, 3, 1]
   \<and> map (\<lambda>w. (target w, payload w))
          (calls_since (handleMessages fail2 [[2, 3, 1]] hubQ)
             (handleMessages fail2 [[2, 3, 1], [1, 3]] hubQ))
        = map (\<lambda>c. (c, msgB)) [1, 3]"
proof -
  have h1: "broadcast hubQ = msgA # msgB # []" by (simp add: hubQ_def)
  have h2: "range_ok [2, 3, 1] hubQ" by (rule range_hubQ)
  have h3: "range_ok [1, 3] (handleMessages fail2 [[2, 3, 1]] hubQ)" by (rule range_hubQ_pass1)
  show ?thesis using passes_in_order [OF h1 h2 h3, of "[]"] h1 h2 h3 by blast
qed



text \<open>
  C4, as the code has it. A failed handshake creates no connection and leaves the
  registry, the running handlers, the closed connections and the writes untouched, but
  it ends the process through \<^verbatim>\<open>log.Fatal\<close>: no later event changes anything. A failure
  of \<^verbatim>\<open>ListenAndServe\<close> ends the process in the same way.
\<close>

theorem handshake_failure_exits:
  "handleConnections (Inl err) rs s = s\<lparr>exited := True\<rparr>
   \<and> clients (handleConnections (Inl err) rs s) = clients s
   \<and> active (handleConnections (Inl err) rs s) = active s
   \<and> closed (handleConnections (Inl err) rs s) = closed s
   \<and> wire (handleConnections (Inl err) rs s) = wire s
   \<and> step tr (handleConnections (Inl err) rs s) ev = handleConnections (Inl err) rs s
   \<and> messenger (Some err) s = s\<lparr>exited := True\<rparr>"
  by (cases ev) (simp_all add: handleConnections_def upgrade_def messenger_def)

theorem handshake_failure_exits_witness:
  "handleConnections (Inl ''websocket: bad handshake'') [] hubABC = hubABC\<lparr>exited := True\<rparr>
   \<and> clients (handleConnections (Inl ''websocket: bad handshake'') [] hubABC) = clients hubABC
   \<and> step fail2 (handleConnections (Inl ''websocket: bad handshake'') [] hubABC) (Dispatch [2, 3, 1])
       = handleConnections (Inl ''websocket: bad handshake'') [] hubABC"
  using handshake_failure_exits [of "''websocket: bad handshake''" "[]" hubABC fail2 "Dispatch [2, 3, 1]"]
  by simp

text \<open>
  C4 as the spec states it fails: after a failed handshake the process does not go on.
\<close>

theorem handshake_failure_counterexample:
  "\<not> exited hub0 \<and> exited (handleConnections (Inl ''websocket: bad handshake'') [] hub0)"
  by (simp add: handleConnections_def upgrade_def hub0_def)

text \<open>
  C8 at an input where the code and the claim part. The identifier is a well-formed
  ObjectID and the collection holds no document with it. \<^verbatim>\<open>getGame\<close> of src/main.go
  answers 200 with the JSON of the zero \<^verbatim>\<open>Game\<close>, not 404; \<^verbatim>\<open>getGame\<close> of
  src/unnamed/part_000 answers 404 there, and so does src/main.go itself when the
  identifier is not hex.
\<close>

theorem getGame_missing_record:
  "docs store0 (ObjectID ''507f1f77bcf86cd799439011'') = None
   \<and> getGame store0 ''507f1f77bcf86cd799439011'' = \<lparr>status = 200, content = Json zero_Game\<rparr>
   \<and> status (getGame_part_000 store0 ''507f1f77bcf86cd799439011'') = 404
   \<and> status (getGame store0 ''no-hex'') = 404"
  by (simp add: getGame_def FindOne_def store0_def Encode_def getGame_part_000_def
        http_Error_def ObjectIDFromHex_def is_hex_def lower_hex_def)

text \<open>
  C9, as the code has it. \<^verbatim>\<open>updateGame\<close> and \<^verbatim>\<open>deleteGame\<close> answer 200 whenever the store
  returns no error. Their filter holds the identifier as a string, so they match only a
  document whose \<^verbatim>\<open>_id\<close> is that string: such a document is replaced or deleted. When no
  document has that string as its \<^verbatim>\<open>_id\<close>, the collection stays as it is and the answer
  is still 200. A document stored under an ObjectID is never touched by either handler,
  whatever the identifier: this is the \<^verbatim>\<open>_id\<close> that \<^verbatim>\<open>createGame\<close> gives a game sent
  without an id, and the one \<^verbatim>\<open>getGame\<close> of src/main.go looks up. The status is 200 or
  500, never 404.
\<close>

theorem update_delete_never_not_found:
  "(fault st = None \<longrightarrow>
      fst (deleteGame st i) = WriteHeader 200
      \<and> docs (snd (deleteGame st i)) = (docs st)(StringID i := None))
   \<and> (fault st = None
        \<and> (docs st (StringID i) = None \<or> ID (Decode rbody zero_Game) = []
            \<or> ID (Decode rbody zero_Game) = i) \<longrightarrow>
      fst (updateGame st now i rbody) = WriteHeader 200
      \<and> docs (snd (updateGame st now i rbody)) =
          (if docs st (StringID i) = None then docs st
           else (docs st)(StringID i \<mapsto> (Decode rbody zero_Game)\<lparr>LastUpdated := now\<rparr>)))
   \<and> (fault st = None \<and> docs st (StringID i) = None \<longrightarrow>
        deleteGame st i = (WriteHeader 200, st)
        \<and> updateGame st now i rbody = (WriteHeader 200, st))
   \<and> (\<forall>h. docs (snd (deleteGame st i)) (ObjectID h) = docs st (ObjectID h))
   \<and> (\<forall>h. docs (snd (updateGame st now i rbody)) (ObjectID h) = docs st (ObjectID h))
   \<and> status (fst (deleteGame st i)) \<in> {200, 500}
   \<and> status (fst (updateGame st now i rbody)) \<in> {200, 500}"
proof -
  have d: "fst (deleteGame st i) = WriteHeader 200
      \<and> docs (snd (deleteGame st i)) = (docs st)(StringID i := None)" if "fault st = None"
    using that by (cases "docs st (StringID i)") (auto simp: deleteGame_def DeleteOne_def)
  have u: "fst (updateGame st now i rbody) = WriteHeader 200
      \<and> docs (snd (updateGame st now i rbody)) =
          (if docs st (StringID i) = None then docs st
           else (docs st)(StringID i \<mapsto> (Decode rbody zero_Game)\<lparr>LastUpdated := now\<rparr>))"
    if "fault st = None" "docs st (StringID i) = None \<or> ID (Decode rbody zero_Game) = []
            \<or> ID (Decode rbody zero_Game) = i"
    using that by (cases "docs st (StringID i)") (auto simp: updateGame_def ReplaceOne_def Let_def)
  have n: "deleteGame st i = (WriteHeader 200, st) \<and> updateGame st now i rbody = (WriteHeader 200, st)"
    if "fault st = None" "docs st (StringID i) = None"
    using that by (simp add: deleteGame_def DeleteOne_def updateGame_def ReplaceOne_def Let_def)
  have od: "docs (snd (deleteGame st i)) (ObjectID h) = docs st (ObjectID h)" for h
    by (auto simp: deleteGame_def DeleteOne_def split: option.splits)
  have ou: "docs (snd (updateGame st now i rbody)) (ObjectID h) = docs st (ObjectID h)" for h
    by (auto simp: updateGame_def ReplaceOne_def Let_def split: option.splits)
  have sd: "status (fst (deleteGame st i)) \<in> {200, 500}"
    by (auto simp: deleteGame_def DeleteOne_def WriteHeader_def http_Error_def
          split: option.splits)
  have su: "status (fst (updateGame st now i rbody)) \<in> {200, 500}"
    by (auto simp: updateGame_def ReplaceOne_def Let_def WriteHeader_def http_Error_def
          split: option.splits)
  show ?thesis using d u n od ou sd su by blast
qed

theorem update_delete_never_not_found_witness:
  "fault store1 = None \<and> docs store1 (StringID ''g1'') \<noteq> None
   \<and> fst (deleteGame store1 ''g1'') = WriteHeader 200
   \<and> docs (snd (deleteGame store1 ''g1'')) = (docs store1)(StringID ''g1'' := None)
   \<and> fault store0 = None \<and> docs store0 (StringID ''g1'') = None
   \<and> fst (deleteGame store0 ''g1'') = WriteHeader 200
   \<and> fst (updateGame store0 7 ''g1'' (Object gameA)) = WriteHeader 200
   \<and> docs (snd (updateGame store0 7 ''g1'' (Object gameA))) = docs store0
   \<and> fault store2 = None \<and> docs store2 (StringID ''507f1f77bcf86cd799439011'') = None
   \<and> docs store2 (ObjectID ''507f1f77bcf86cd799439011'')
        = Some (gameB\<lparr>CreatedAt := 7, LastUpdated := 7\<rparr>)
   \<and> getGame store2 ''507f1f77bcf86cd799439011'' =
        Encode (gameB\<lparr>ID := ''507f1f77bcf86cd799439011'', CreatedAt := 7, LastUpdated := 7\<rparr>)
   \<and> deleteGame store2 ''507f1f77bcf86cd799439011'' = (WriteHeader 200, store2)
   \<and> updateGame store2 9 ''507f1f77bcf86cd799439011'' (Object gameA) = (WriteHeader 200, store2)"
proof -
  have h1: "fault store1 = None" "docs store1 (StringID ''g1'') \<noteq> None"
    by (simp_all add: store1_def)
  have h0: "fault store0 = None" "docs store0 (StringID ''g1'') = None"
    by (simp_all add: store0_def)
  have h2: "fault store2 = None" "docs store2 (StringID ''507f1f77bcf86cd799439011'') = None"
    "docs store2 (ObjectID ''507f1f77bcf86cd799439011'')
        = Some (gameB\<lparr>CreatedAt := 7, LastUpdated := 7\<rparr>)"
    unfolding store2_eq by simp_all
  note g = getGame_store2
  show ?thesis
    using update_delete_never_not_found [of store1 "''g1''" "Object gameA" 7]
      update_delete_never_not_found [of store0 "''g1''" "Object gameA" 7]
      update_delete_never_not_found [of store2 "''507f1f77bcf86cd799439011''" "Object gameA" 9]
      h1 h0 h2 g
    by simp
qed

text \<open>
  C9 as the spec states it fails: no document has the identifier, and both handlers
  answer 200.
\<close>

theorem update_delete_counterexample:
  "docs store0 (StringID ''g1'') = None
   \<and> status (fst (deleteGame store0 ''g1'')) = 200
   \<and> status (fst (updateGame store0 7 ''g1'' (Object gameA))) = 200"
  by (simp add: store0_def deleteGame_def DeleteOne_def updateGame_def ReplaceOne_def
        WriteHeader_def)



end
